theory Spec2Isabelle
  imports Complex_Main
begin

section \<open>Characters and strings as Python sees them\<close>

text \<open>
  The parser of \<^verbatim>\<open>table_parser.py\<close> works on Python \<^verbatim>\<open>str\<close> values. A string is modelled
  as a \<^typ>\<open>string\<close> whose characters are code points below 256. In that range the decimal
  digits of \<^verbatim>\<open>\d\<close> are exactly \<^verbatim>\<open>0\<close> to \<^verbatim>\<open>9\<close>, and the white space of \<^verbatim>\<open>\s\<close>,
  \<^verbatim>\<open>str.strip\<close> and \<^verbatim>\<open>str.isspace\<close> is the set listed in \<open>is_space\<close>.
\<close>

definition is_digit :: "char \<Rightarrow> bool" where
  "is_digit c = (c \<in> set ''0123456789'')"

definition is_space :: "char \<Rightarrow> bool" where
  "is_space c = (c \<in> set [CHR 0x09, CHR 0x0A, CHR 0x0B, CHR 0x0C, CHR 0x0D,
                            CHR 0x1C, CHR 0x1D, CHR 0x1E, CHR 0x1F, CHR '' '',
                            CHR 0x85, CHR 0xA0])"

text \<open>
  \<^verbatim>\<open>str.upper\<close> and \<^verbatim>\<open>re.IGNORECASE\<close> are modelled on the ASCII letters. The only uses
  in the source compare against the ASCII needles \<^verbatim>\<open>HSO CHINA\<close> and \<^verbatim>\<open>CHINA\<close>; no other
  code point below 256 upper-cases to one of their letters (\<^verbatim>\<open>\xdf\<close> becomes \<^verbatim>\<open>SS\<close>, which
  can neither create nor destroy an occurrence of a needle).
\<close>

definition upper_char :: "char \<Rightarrow> char" where
  "upper_char c =
     (case map_of (zip ''abcdefghijklmnopqrstuvwxyz'' ''ABCDEFGHIJKLMNOPQRSTUVWXYZ'') c of
        Some u \<Rightarrow> u
      | None \<Rightarrow> c)"

definition lower_char :: "char \<Rightarrow> char" where
  "lower_char c =
     (case map_of (zip ''ABCDEFGHIJKLMNOPQRSTUVWXYZ'' ''abcdefghijklmnopqrstuvwxyz'') c of
        Some u \<Rightarrow> u
      | None \<Rightarrow> c)"

definition upper :: "string \<Rightarrow> string" where
  "upper s = map upper_char s"

definition strip :: "string \<Rightarrow> string" where
  "strip s = rev (dropWhile is_space (rev (dropWhile is_space s)))"

text \<open>\<^verbatim>\<open>needle in s\<close>\<close>

fun is_prefix :: "string \<Rightarrow> string \<Rightarrow> bool" where
  "is_prefix [] s = True"
| "is_prefix (a # as) [] = False"
| "is_prefix (a # as) (c # cs) = (a = c \<and> is_prefix as cs)"

fun contains :: "string \<Rightarrow> string \<Rightarrow> bool" where
  "contains needle [] = (needle = [])"
| "contains needle (c # cs) = (is_prefix needle (c # cs) \<or> contains needle cs)"

text \<open>\<^verbatim>\<open>s.split('\n')\<close>: the pieces between the newlines; always at least one piece.\<close>

fun split_lines :: "string \<Rightarrow> string list" where
  "split_lines [] = [[]]"
| "split_lines (c # cs) =
     (if c = CHR 0x0A then [] # split_lines cs
      else (case split_lines cs of
              l # ls \<Rightarrow> (c # l) # ls
            | [] \<Rightarrow> [[c]]))"

text \<open>\<^verbatim>\<open>s.replace(',', '')\<close>\<close>

definition remove_commas :: "string \<Rightarrow> string" where
  "remove_commas s = filter (\<lambda>c. c \<noteq> CHR '','') s"


section \<open>Regular expressions of the \<^verbatim>\<open>re\<close> module\<close>

text \<open>
  The patterns of the source are written as syntax trees and run by a backtracking matcher
  that lists the ways a pattern can match at a position in the engine's own order of
  preference (greedy quantifiers try the longest repetition first, lazy ones the shortest,
  an alternation its left branch first). \<^verbatim>\<open>re.search\<close> takes the first way at the leftmost
  position that has one.
\<close>

datatype atom =
    Ch char            \<comment> \<open>a literal character\<close>
  | ChI char           \<comment> \<open>a literal character under \<^verbatim>\<open>re.IGNORECASE\<close>\<close>
  | AnyChar            \<comment> \<open>\<^verbatim>\<open>.\<close> (every character but the newline)\<close>
  | Digit              \<comment> \<open>\<^verbatim>\<open>\d\<close>\<close>
  | Space              \<comment> \<open>\<^verbatim>\<open>\s\<close>\<close>
  | OneOf "atom list"  \<comment> \<open>a character set \<^verbatim>\<open>[...]\<close>\<close>

fun atom_ok :: "atom \<Rightarrow> char \<Rightarrow> bool" where
  "atom_ok (Ch a) c = (c = a)"
| "atom_ok (ChI a) c = (upper_char c = upper_char a)"
| "atom_ok AnyChar c = (c \<noteq> CHR 0x0A)"
| "atom_ok Digit c = is_digit c"
| "atom_ok Space c = is_space c"
| "atom_ok (OneOf as) c = (\<exists>a \<in> set as. atom_ok a c)"

datatype regex =
    Atom atom
  | Eps
  | Seq regex regex
  | Alt regex regex        \<comment> \<open>\<^verbatim>\<open>a|b\<close>\<close>
  | Opt regex              \<comment> \<open>\<^verbatim>\<open>a?\<close>\<close>
  | Star regex             \<comment> \<open>\<^verbatim>\<open>a*\<close>\<close>
  | StarLazy regex         \<comment> \<open>\<^verbatim>\<open>a*?\<close>\<close>
  | Group nat regex        \<comment> \<open>the capturing group with this number\<close>
  | Bol                    \<comment> \<open>\<^verbatim>\<open>^\<close>\<close>
  | Eol                    \<comment> \<open>\<^verbatim>\<open>$\<close>\<close>
  | Lookahead regex        \<comment> \<open>\<^verbatim>\<open>(?=a)\<close>\<close>

text \<open>\<^verbatim>\<open>a+\<close>, \<^verbatim>\<open>a+?\<close>, \<^verbatim>\<open>a{n,}\<close> and a literal string.\<close>

definition plus :: "regex \<Rightarrow> regex" where
  "plus a = Seq a (Star a)"

definition plus_lazy :: "regex \<Rightarrow> regex" where
  "plus_lazy a = Seq a (StarLazy a)"

fun at_least :: "nat \<Rightarrow> regex \<Rightarrow> regex" where
  "at_least 0 a = Star a"
| "at_least (Suc n) a = Seq a (at_least n a)"

fun literal :: "string \<Rightarrow> regex" where
  "literal [] = Eps"
| "literal (c # cs) = Seq (Atom (Ch c)) (literal cs)"

text \<open>
  A matcher state is the position in the subject, the text from there on, and the groups
  captured so far (the latest capture of a group first).
\<close>

type_synonym mstate = "nat \<times> string \<times> (nat \<times> string) list"

function match :: "regex \<Rightarrow> mstate \<Rightarrow> mstate list" where
  "match (Atom a) (p, s, g) =
     (case s of [] \<Rightarrow> [] | c # cs \<Rightarrow> if atom_ok a c then [(Suc p, cs, g)] else [])"
| "match Eps st = [st]"
| "match (Seq a b) st = concat (map (match b) (match a st))"
| "match (Alt a b) st = match a st @ match b st"
| "match (Opt a) st = match a st @ [st]"
| "match (Star a) (p, s, g) =
     concat (map (\<lambda>(p', s', g'). if length s' < length s then match (Star a) (p', s', g') else [])
                 (match a (p, s, g)))
     @ [(p, s, g)]"
| "match (StarLazy a) (p, s, g) =
     (p, s, g) #
     concat (map (\<lambda>(p', s', g'). if length s' < length s then match (StarLazy a) (p', s', g') else [])
                 (match a (p, s, g)))"
| "match (Group i a) (p, s, g) =
     map (\<lambda>(p', s', g'). (p', s', (i, take (p' - p) s) # g')) (match a (p, s, g))"
| "match Bol (p, s, g) = (if p = 0 then [(p, s, g)] else [])"
| "match Eol (p, s, g) = (if s = [] \<or> s = [CHR 0x0A] then [(p, s, g)] else [])"
| "match (Lookahead a) st = (if match a st = [] then [] else [st])"
  by pat_completeness auto
termination
  by (relation "measures [\<lambda>(r, st). size r, \<lambda>(r, p, s, g). length s]") auto

text \<open>The equations of the matcher are unfolded by hand in the proofs.\<close>

declare match.simps [simp del]

text \<open>\<^verbatim>\<open>re.search(pattern, s)\<close>: the start positions from left to right.\<close>

fun search_from :: "regex \<Rightarrow> nat \<Rightarrow> string \<Rightarrow> mstate option" where
  "search_from r p s =
     (case match r (p, s, []) of
        m # _ \<Rightarrow> Some m
      | [] \<Rightarrow> (case s of [] \<Rightarrow> None | _ # cs \<Rightarrow> search_from r (Suc p) cs))"

definition re_search :: "regex \<Rightarrow> string \<Rightarrow> mstate option" where
  "re_search r s = search_from r 0 s"

text \<open>
  \<^verbatim>\<open>re.sub(pattern, repl, s)\<close> for a pattern that never matches the empty string (the two
  patterns of the source need at least one character): the leftmost matches, not
  overlapping, each replaced by \<open>repl\<close>.
\<close>

function re_sub_from :: "regex \<Rightarrow> string \<Rightarrow> nat \<Rightarrow> string \<Rightarrow> string" where
  "re_sub_from r repl p s =
     (case match r (p, s, []) of
        (p', s', g') # _ \<Rightarrow>
          if length s' < length s then repl @ re_sub_from r repl p' s'
          else (case s of [] \<Rightarrow> repl | c # cs \<Rightarrow> repl @ c # re_sub_from r repl (Suc p) cs)
      | [] \<Rightarrow> (case s of [] \<Rightarrow> [] | c # cs \<Rightarrow> c # re_sub_from r repl (Suc p) cs))"
  by pat_completeness auto
termination
  by (relation "measure (\<lambda>(r, repl, p, s). length s)") auto

definition re_sub :: "regex \<Rightarrow> string \<Rightarrow> string \<Rightarrow> string" where
  "re_sub r repl s = re_sub_from r repl 0 s"


section \<open>Python values, integers and floats\<close>

datatype pyerror = ValueError | TypeError | OverflowError | AttributeError | KeyError

text \<open>
  A \<^verbatim>\<open>float\<close> is modelled by the rational number it stands for, or by one of the three
  special values. Overflow to infinity and underflow to zero happen where binary64 has
  them; the rounding of the significand to 53 bits is not modelled, so a finite float
  carries the exact value of the decimal text it was read from.
\<close>

datatype pyfloat = Fin rat | PInf | NInf | NaN

definition huge :: rat where
  "huge = 2 ^ 1024 - 2 ^ 970"

definition tiny :: rat where
  "tiny = 1 / 2 ^ 1075"

definition fl :: "rat \<Rightarrow> pyfloat" where
  "fl q = (if huge \<le> q then PInf else if q \<le> - huge then NInf
           else if \<bar>q\<bar> \<le> tiny then Fin 0 else Fin q)"

text \<open>
  The values a row dictionary holds: \<^verbatim>\<open>None\<close>, an \<^verbatim>\<open>int\<close>, a \<^verbatim>\<open>float\<close> or a \<^verbatim>\<open>str\<close>
  (\<^verbatim>\<open>bool\<close>, a subclass of \<^verbatim>\<open>int\<close>, is left out).
\<close>

datatype pyval = PNone | PInt int | PFloat pyfloat | PStr string

text \<open>Truth value of an object, as \<^verbatim>\<open>if x\<close> and \<^verbatim>\<open>not x\<close> take it.\<close>

fun truthy :: "pyval \<Rightarrow> bool" where
  "truthy PNone = False"
| "truthy (PInt n) = (n \<noteq> 0)"
| "truthy (PFloat f) = (f \<noteq> Fin 0)"
| "truthy (PStr s) = (s \<noteq> [])"


subsection \<open>Decimal digits\<close>

definition digit_val :: "char \<Rightarrow> nat" where
  "digit_val c = length (takeWhile (\<lambda>d. d \<noteq> c) ''0123456789'')"

definition nat_of_digits :: "string \<Rightarrow> nat" where
  "nat_of_digits ds = foldl (\<lambda>n c. 10 * n + digit_val c) 0 ds"

definition digit_char :: "nat \<Rightarrow> char" where
  "digit_char n = ''0123456789'' ! (n mod 10)"

fun show_nat :: "nat \<Rightarrow> string" where
  "show_nat n = (if n < 10 then [digit_char n] else show_nat (n div 10) @ [digit_char n])"

declare show_nat.simps [simp del]

text \<open>\<^verbatim>\<open>str(n)\<close> of an \<^verbatim>\<open>int\<close>\<close>

definition show_int :: "int \<Rightarrow> string" where
  "show_int i = (if i < 0 then CHR ''-'' # show_nat (nat (- i)) else show_nat (nat i))"

text \<open>
  A run of digits in which single underscores may separate digits, as \<^verbatim>\<open>int\<close> and
  \<^verbatim>\<open>float\<close> read it: the digits read and the text left over.
\<close>

fun digitpart :: "string \<Rightarrow> string \<times> string" where
  "digitpart [] = ([], [])"
| "digitpart [c] = (if is_digit c then ([c], []) else ([], [c]))"
| "digitpart [c, u] =
     (if is_digit c then (case digitpart [u] of (ds, r) \<Rightarrow> (c # ds, r)) else ([], [c, u]))"
| "digitpart (c # u # d # cs) =
     (if is_digit c then
        (if u = CHR ''_'' \<and> is_digit d then (case digitpart (d # cs) of (ds, r) \<Rightarrow> (c # ds, r))
         else (case digitpart (u # d # cs) of (ds, r) \<Rightarrow> (c # ds, r)))
      else ([], c # u # d # cs))"

text \<open>An optional sign: whether it was a minus, and the text after it.\<close>

fun read_sign :: "string \<Rightarrow> bool \<times> string" where
  "read_sign [] = (False, [])"
| "read_sign (c # cs) =
     (if c = CHR ''-'' then (True, cs) else if c = CHR ''+'' then (False, cs) else (False, c # cs))"

subsection \<open>\<^verbatim>\<open>int(x)\<close>\<close>

text \<open>
  CPython 3.11 and later refuse a digit string longer than a configurable limit (4300 digits
  by default) with a \<^verbatim>\<open>ValueError\<close>; the model is of an interpreter without that limit.
\<close>

definition int_of_string :: "string \<Rightarrow> pyerror + int" where
  "int_of_string s =
     (case read_sign (strip s) of (neg, u) \<Rightarrow>
      case digitpart u of (ds, r) \<Rightarrow>
        if ds \<noteq> [] \<and> r = [] then
          Inr (if neg then - int (nat_of_digits ds) else int (nat_of_digits ds))
        else Inl ValueError)"

fun py_int :: "pyval \<Rightarrow> pyerror + int" where
  "py_int PNone = Inl TypeError"
| "py_int (PInt n) = Inr n"
| "py_int (PFloat (Fin q)) = Inr (if 0 \<le> q then \<lfloor>q\<rfloor> else \<lceil>q\<rceil>)"
| "py_int (PFloat PInf) = Inl OverflowError"
| "py_int (PFloat NInf) = Inl OverflowError"
| "py_int (PFloat NaN) = Inl ValueError"
| "py_int (PStr s) = int_of_string s"

subsection \<open>\<^verbatim>\<open>float(x)\<close>\<close>

definition pow10 :: "int \<Rightarrow> rat" where
  "pow10 e = (if 0 \<le> e then 10 ^ nat e else 1 / 10 ^ nat (- e))"

text \<open>The exponent part of a float literal, if there is one: its value and the text left.\<close>

definition read_exponent :: "string \<Rightarrow> (int \<times> string) option" where
  "read_exponent s =
     (case s of
        [] \<Rightarrow> Some (0, [])
      | c # cs \<Rightarrow>
          if c = CHR ''e'' \<or> c = CHR ''E'' then
            (case read_sign cs of (neg, u) \<Rightarrow>
             case digitpart u of (ds, r) \<Rightarrow>
               if ds = [] then None
               else Some (if neg then - int (nat_of_digits ds) else int (nat_of_digits ds), r))
          else Some (0, c # cs))"

text \<open>The fraction part of a float literal, if there is one: its digits and the text left.\<close>

definition read_fraction :: "string \<Rightarrow> string \<times> string" where
  "read_fraction s =
     (case s of
        [] \<Rightarrow> ([], [])
      | c # cs \<Rightarrow> if c = CHR ''.'' then digitpart cs else ([], c # cs))"

text \<open>
  An unsigned decimal literal: \<^verbatim>\<open>[digits] . digits\<close> or \<^verbatim>\<open>digits [.]\<close>, then an optional
  exponent, and nothing after it.
\<close>

definition read_decimal :: "string \<Rightarrow> rat option" where
  "read_decimal u =
     (case digitpart u of (ip, r1) \<Rightarrow>
        (case read_fraction r1 of (fp, r2) \<Rightarrow>
           (if ip = [] \<and> fp = [] then None
            else (case read_exponent r2 of
                    None \<Rightarrow> None
                  | Some (e, r3) \<Rightarrow>
                      (if r3 \<noteq> [] then None
                       else Some (of_nat (nat_of_digits (ip @ fp)) * pow10 (e - int (length fp))))))))"

definition float_of_string :: "string \<Rightarrow> pyerror + pyfloat" where
  "float_of_string s =
     (case read_sign (strip s) of (neg, u) \<Rightarrow>
        (if map lower_char u = ''inf'' \<or> map lower_char u = ''infinity'' then
           Inr (if neg then NInf else PInf)
         else if map lower_char u = ''nan'' then Inr NaN
         else (case read_decimal u of
                 None \<Rightarrow> Inl ValueError
               | Some q \<Rightarrow> Inr (fl (if neg then - q else q)))))"

fun py_float :: "pyval \<Rightarrow> pyerror + pyfloat" where
  "py_float PNone = Inl TypeError"
| "py_float (PInt n) = (if huge \<le> \<bar>of_int n\<bar> then Inl OverflowError else Inr (Fin (of_int n)))"
| "py_float (PFloat f) = Inr f"
| "py_float (PStr s) = float_of_string s"

subsection \<open>Printing numbers\<close>

text \<open>Rounding to the nearest integer, a tie to the even one.\<close>

definition round_half_even :: "rat \<Rightarrow> int" where
  "round_half_even q =
     (let f = \<lfloor>q\<rfloor>; d = q - of_int f
      in if d < 1 / 2 then f else if 1 / 2 < d then f + 1 else if even f then f else f + 1)"

definition pad_zeros :: "nat \<Rightarrow> string \<Rightarrow> string" where
  "pad_zeros n ds = replicate (n - length ds) CHR ''0'' @ ds"

text \<open>
  The format \<^verbatim>\<open>f"{x:.nf}"\<close> of a float: \<open>n\<close> digits after the point, the value rounded
  to them.
\<close>

fun format_fixed :: "nat \<Rightarrow> pyfloat \<Rightarrow> string" where
  "format_fixed n (Fin q) =
     (let k = nat (round_half_even (\<bar>q\<bar> * 10 ^ n))
      in (if q < 0 then ''-'' else []) @ show_nat (k div 10 ^ n) @
         (if n = 0 then [] else CHR ''.'' # pad_zeros n (show_nat (k mod 10 ^ n))))"
| "format_fixed n PInf = ''inf''"
| "format_fixed n NInf = ''-inf''"
| "format_fixed n NaN = ''nan''"

text \<open>
  \<^verbatim>\<open>str(x)\<close> of a float. CPython prints the shortest digit string that reads back as the
  same binary64 number, at most 17 significant digits. Here the value is rounded to 17
  significant digits and the trailing zeros are dropped, which is the same string whenever
  the float was read from a decimal text of at most 15 significant digits. The digits are
  laid out as CPython does: with an exponent when the decimal point would fall more than 16
  places right or more than 3 places left of the first digit.
\<close>

fun leading_zeros :: "nat \<Rightarrow> rat \<Rightarrow> nat" where
  "leading_zeros 0 q = 0"
| "leading_zeros (Suc n) q = (if q * 10 < 1 then Suc (leading_zeros n (q * 10)) else 0)"

text \<open>For \<open>0 < q\<close>, the exponent \<open>e\<close> with \<open>10 ^ (e - 1) \<le> q < 10 ^ e\<close>.\<close>

definition decimal_point :: "rat \<Rightarrow> int" where
  "decimal_point q =
     (if 1 \<le> q then int (length (show_nat (nat \<lfloor>q\<rfloor>))) else - int (leading_zeros 400 q))"

definition layout_digits :: "string \<Rightarrow> int \<Rightarrow> string" where
  "layout_digits ds e =
     (if - 4 < e \<and> e \<le> 16 then
        (if e \<le> 0 then ''0.'' @ replicate (nat (- e)) CHR ''0'' @ ds
         else if length ds \<le> nat e then ds @ replicate (nat e - length ds) CHR ''0'' @ ''.0''
         else take (nat e) ds @ CHR ''.'' # drop (nat e) ds)
      else
        take 1 ds @ (if 1 < length ds then CHR ''.'' # drop 1 ds else []) @ ''e'' @
        (if e - 1 < 0 then ''-'' else ''+'') @ pad_zeros 2 (show_nat (nat \<bar>e - 1\<bar>)))"

definition repr_positive :: "rat \<Rightarrow> string" where
  "repr_positive q =
     (let e = decimal_point q;
          ds = show_nat (nat (round_half_even (q * pow10 (17 - e))));
          e' = (if length ds = 18 then e + 1 else e)
      in layout_digits (rev (dropWhile (\<lambda>c. c = CHR ''0'') (rev ds))) e')"

fun float_repr :: "pyfloat \<Rightarrow> string" where
  "float_repr (Fin q) =
     (if q = 0 then ''0.0'' else if q < 0 then CHR ''-'' # repr_positive (- q)
      else repr_positive q)"
| "float_repr PInf = ''inf''"
| "float_repr NInf = ''-inf''"
| "float_repr NaN = ''nan''"

text \<open>\<^verbatim>\<open>str(x)\<close>\<close>

fun py_str :: "pyval \<Rightarrow> string" where
  "py_str PNone = ''None''"
| "py_str (PInt n) = show_int n"
| "py_str (PFloat f) = float_repr f"
| "py_str (PStr s) = s"


section \<open>The row extractor: \<^verbatim>\<open>parse_invoice_table\<close>\<close>

text \<open>A row is a dictionary from column names to values.\<close>

type_synonym pyrow = "string \<rightharpoonup> pyval"

text \<open>Running one step after another, an exception of the first ending the run.\<close>

definition and_then :: "pyerror + 'a \<Rightarrow> ('a \<Rightarrow> pyerror + 'b) \<Rightarrow> pyerror + 'b" where
  "and_then x f = (case x of Inl e \<Rightarrow> Inl e | Inr v \<Rightarrow> f v)"

text \<open>\<^verbatim>\<open>match.group(i)\<close>: the text of the group, \<^verbatim>\<open>None\<close> if the group took no part.\<close>

definition group :: "mstate \<Rightarrow> nat \<Rightarrow> pyval" where
  "group m i = (case map_of (snd (snd m)) i of Some t \<Rightarrow> PStr t | None \<Rightarrow> PNone)"

text \<open>\<^verbatim>\<open>x.replace(',', '')\<close>\<close>

fun replace_commas :: "pyval \<Rightarrow> pyerror + pyval" where
  "replace_commas (PStr s) = Inr (PStr (remove_commas s))"
| "replace_commas v = Inl AttributeError"

subsection \<open>The patterns\<close>

text \<open>\<^verbatim>\<open>\d+(?:\.\d+)?\<close>\<close>

definition number :: regex where
  "number = Seq (plus (Atom Digit)) (Opt (Seq (Atom (Ch CHR ''.'')) (plus (Atom Digit))))"

text \<open>\<^verbatim>\<open>[\d,]+\.?\d*\<close>\<close>

definition grouped_number :: regex where
  "grouped_number =
     Seq (plus (Atom (OneOf [Digit, Ch CHR '',''])))
         (Seq (Opt (Atom (Ch CHR ''.''))) (Star (Atom Digit)))"

text \<open>\<^verbatim>\<open>^(.+?)(?=HSO\s+CHINA)\<close> with \<^verbatim>\<open>re.IGNORECASE\<close>\<close>

definition product_pattern :: regex where
  "product_pattern =
     Seq Bol (Seq (Group 1 (plus_lazy (Atom AnyChar)))
       (Lookahead
         (Seq (Atom (ChI CHR ''H'')) (Seq (Atom (ChI CHR ''S'')) (Seq (Atom (ChI CHR ''O''))
         (Seq (plus (Atom Space))
         (Seq (Atom (ChI CHR ''C'')) (Seq (Atom (ChI CHR ''H'')) (Seq (Atom (ChI CHR ''I''))
         (Seq (Atom (ChI CHR ''N'')) (Atom (ChI CHR ''A''))))))))))))"

text \<open>\<^verbatim>\<open>(\d+)\s+(\d+(?:\.\d+)?)\s+([\d,]+\.?\d*)$\<close>\<close>

definition clean_pattern :: regex where
  "clean_pattern =
     Seq (Group 1 (plus (Atom Digit))) (Seq (plus (Atom Space))
    (Seq (Group 2 number) (Seq (plus (Atom Space))
    (Seq (Group 3 grouped_number) Eol))))"

text \<open>\<^verbatim>\<open>(\d+)\s+(\d+(?:\.\d+)?)\s*:\s*([\d,]+\.?\d*)$\<close>\<close>

definition colon_pattern :: regex where
  "colon_pattern =
     Seq (Group 1 (plus (Atom Digit))) (Seq (plus (Atom Space))
    (Seq (Group 2 number) (Seq (Star (Atom Space)) (Seq (Atom (Ch CHR '':''))
    (Seq (Star (Atom Space)) (Seq (Group 3 grouped_number) Eol))))))"

text \<open>\<^verbatim>\<open>(\d+(?:\.\d+)?)\s+([\d,]+\.?\d*)$\<close>\<close>

definition price_pattern :: regex where
  "price_pattern =
     Seq (Group 1 number) (Seq (plus (Atom Space)) (Seq (Group 2 grouped_number) Eol))"

text \<open>
  \<^verbatim>\<open>r'(\d+)(?:\s+|\s*\.\s*)' + re.escape(u)\<close>: the escaped text matches itself, character by
  character.
\<close>

definition qty_pattern :: "string \<Rightarrow> regex" where
  "qty_pattern u =
     Seq (Group 1 (plus (Atom Digit)))
    (Seq (Alt (plus (Atom Space))
              (Seq (Star (Atom Space)) (Seq (Atom (Ch CHR ''.'')) (Star (Atom Space)))))
         (literal u))"

text \<open>\<^verbatim>\<open>\d{8,}\<close> and \<^verbatim>\<open>\s+\<close>\<close>

definition long_digits :: regex where
  "long_digits = at_least 8 (Atom Digit)"

definition spaces :: regex where
  "spaces = plus (Atom Space)"

subsection \<open>One line of the scan\<close>

text \<open>The row as it is initialised for a candidate line (source lines 35 to 42).\<close>

definition init_row :: "nat \<Rightarrow> string \<Rightarrow> pyrow" where
  "init_row line_num line =
     [''Product'' \<mapsto> PStr [], ''Quantity'' \<mapsto> PStr [], ''Unit_Price_USD'' \<mapsto> PStr [],
      ''Total_Price_USD'' \<mapsto> PStr [], ''Source_Line'' \<mapsto> PInt (int line_num),
      ''Raw_Text'' \<mapsto> PStr line]"

text \<open>The clean-up of the captured product name (source lines 47 to 50).\<close>

definition clean_product :: "string \<Rightarrow> string" where
  "clean_product g =
     (let product_name = strip g;
          product_clean = strip (re_sub long_digits [] product_name)
      in strip (re_sub spaces '' '' product_clean))"

definition extract_product :: "string \<Rightarrow> pyrow \<Rightarrow> pyerror + pyrow" where
  "extract_product line row =
     (case re_search product_pattern line of
        None \<Rightarrow> Inr row
      | Some m \<Rightarrow>
          (case group m 1 of
             PStr g \<Rightarrow> Inr (row(''Product'' \<mapsto> PStr (clean_product g)))
           | _ \<Rightarrow> Inl AttributeError))"

text \<open>
  The three assignments after a match of the first or of the second pattern (source lines
  61 to 63 and 69 to 71), in the order the source converts the groups.
\<close>

definition fill_triple :: "mstate \<Rightarrow> pyrow \<Rightarrow> pyerror + pyrow" where
  "fill_triple m row =
     and_then (py_int (group m 1)) (\<lambda>q.
     and_then (py_float (group m 2)) (\<lambda>u.
     and_then (replace_commas (group m 3)) (\<lambda>g3.
     and_then (py_float g3) (\<lambda>t.
       Inr (row(''Quantity'' \<mapsto> PInt q, ''Unit_Price_USD'' \<mapsto> PFloat u,
                ''Total_Price_USD'' \<mapsto> PFloat t))))))"

text \<open>The two assignments after a match of the third pattern (source lines 77 and 78).\<close>

definition fill_prices :: "mstate \<Rightarrow> pyrow \<Rightarrow> pyerror + pyrow" where
  "fill_prices m row =
     and_then (py_float (group m 1)) (\<lambda>u.
     and_then (replace_commas (group m 2)) (\<lambda>g2.
     and_then (py_float g2) (\<lambda>t.
       Inr (row(''Unit_Price_USD'' \<mapsto> PFloat u, ''Total_Price_USD'' \<mapsto> PFloat t)))))"

text \<open>The cascade of the three patterns (source lines 57 to 79).\<close>

definition extract_numbers :: "string \<Rightarrow> pyrow \<Rightarrow> pyerror + pyrow" where
  "extract_numbers line row =
     (case re_search clean_pattern line of
        Some m \<Rightarrow> fill_triple m row
      | None \<Rightarrow>
          (case re_search colon_pattern line of
             Some m \<Rightarrow> fill_triple m row
           | None \<Rightarrow>
               (case re_search price_pattern line of
                  Some m \<Rightarrow> fill_prices m row
                | None \<Rightarrow> Inr row)))"

text \<open>
  The special handling for corrupted quantities (source lines 83 to 91). Only a
  \<^verbatim>\<open>ValueError\<close> of the conversion is caught.
\<close>

definition recover_quantity :: "string \<Rightarrow> pyrow \<Rightarrow> pyerror + pyrow" where
  "recover_quantity line row =
     (case (row ''Unit_Price_USD'', row ''Total_Price_USD'', row ''Quantity'') of
        (Some u, Some t, Some q) \<Rightarrow>
          (if truthy u \<and> truthy t \<and> \<not> truthy q then
             (case re_search (qty_pattern (py_str u)) line of
                None \<Rightarrow> Inr row
              | Some qty_match \<Rightarrow>
                  (case py_int (group qty_match 1) of
                     Inr n \<Rightarrow> Inr (row(''Quantity'' \<mapsto> PInt n))
                   | Inl ValueError \<Rightarrow> Inr row
                   | Inl e \<Rightarrow> Inl e))
           else Inr row)
      | _ \<Rightarrow> Inl KeyError)"

text \<open>The test that lets a row into the table (source line 94).\<close>

definition keep_row :: "pyrow \<Rightarrow> pyerror + bool" where
  "keep_row row =
     (case row ''Product'' of
        Some (PStr p) \<Rightarrow> Inr (p \<noteq> [] \<and> 2 < length p)
      | Some v \<Rightarrow> (if truthy v then Inl TypeError else Inr False)
      | None \<Rightarrow> Inl KeyError)"

text \<open>
  The body of the loop for the line with number \<open>line_num\<close>: an exception, no row
  (\<^verbatim>\<open>continue\<close>, or the row not appended), or the row appended to the table.
\<close>

definition parse_line :: "nat \<Rightarrow> string \<Rightarrow> pyerror + pyrow option" where
  "parse_line line_num raw =
     (let line = strip raw in
      if line = [] then Inr None
      else if \<not> contains ''HSO CHINA'' (upper line) \<and> \<not> contains ''CHINA'' (upper line)
      then Inr None
      else
        and_then (extract_product line (init_row line_num line)) (\<lambda>row1.
        and_then (extract_numbers line row1) (\<lambda>row2.
        and_then (recover_quantity line row2) (\<lambda>row3.
        and_then (keep_row row3) (\<lambda>keep.
          Inr (if keep then Some row3 else None))))))"

subsection \<open>The scan\<close>

fun parse_lines :: "(nat \<times> string) list \<Rightarrow> pyrow list \<Rightarrow> pyerror + pyrow list" where
  "parse_lines [] table_data = Inr table_data"
| "parse_lines ((line_num, line) # rest) table_data =
     (case parse_line line_num line of
        Inl e \<Rightarrow> Inl e
      | Inr None \<Rightarrow> parse_lines rest table_data
      | Inr (Some row) \<Rightarrow> parse_lines rest (table_data @ [row]))"

definition parse_invoice_table :: "string \<Rightarrow> pyerror + pyrow list" where
  "parse_invoice_table text = parse_lines (enumerate 1 (split_lines (strip text))) []"


section \<open>The CSV writer: \<^verbatim>\<open>save_to_csv\<close>\<close>

text \<open>\<^verbatim>\<open>row.get(key)\<close> and \<^verbatim>\<open>row.get(key, default)\<close>\<close>

definition get :: "pyrow \<Rightarrow> string \<Rightarrow> pyval" where
  "get row k = (case row k of Some v \<Rightarrow> v | None \<Rightarrow> PNone)"

definition get_default :: "pyrow \<Rightarrow> string \<Rightarrow> pyval \<Rightarrow> pyval" where
  "get_default row k d = (case row k of Some v \<Rightarrow> v | None \<Rightarrow> d)"

text \<open>
  The quantity cell (source lines 126 to 133) and a price cell (source lines 136 to 153):
  of the exceptions of the conversion, \<^verbatim>\<open>ValueError\<close> and \<^verbatim>\<open>TypeError\<close> are caught.
\<close>

definition quantity_cell :: "pyval \<Rightarrow> pyerror + pyval" where
  "quantity_cell qty =
     (if qty \<noteq> PStr [] \<and> qty \<noteq> PNone then
        (case py_int qty of
           Inr n \<Rightarrow> Inr (PInt n)
         | Inl ValueError \<Rightarrow> Inr (PStr [])
         | Inl TypeError \<Rightarrow> Inr (PStr [])
         | Inl e \<Rightarrow> Inl e)
      else Inr (PStr []))"

definition price_cell :: "pyval \<Rightarrow> pyerror + pyval" where
  "price_cell price =
     (if price \<noteq> PStr [] \<and> price \<noteq> PNone then
        (case py_float price of
           Inr f \<Rightarrow> Inr (PStr (format_fixed 2 f))
         | Inl ValueError \<Rightarrow> Inr (PStr [])
         | Inl TypeError \<Rightarrow> Inr (PStr [])
         | Inl e \<Rightarrow> Inl e)
      else Inr (PStr []))"

text \<open>
  The dictionary \<^verbatim>\<open>csv_row\<close> built for one row, as the list of its values in the order
  of \<^verbatim>\<open>fieldnames\<close>.
\<close>

definition csv_row :: "pyrow \<Rightarrow> pyerror + pyval list" where
  "csv_row row =
     and_then (quantity_cell (get_default row ''Quantity'' (PStr []))) (\<lambda>qty.
     and_then (price_cell (get_default row ''Unit_Price_USD'' (PStr []))) (\<lambda>unit_price.
     and_then (price_cell (get_default row ''Total_Price_USD'' (PStr []))) (\<lambda>total_price.
       Inr [PStr (strip (py_str (get_default row ''Product'' (PStr [])))),
            qty, unit_price, total_price,
            get_default row ''Source_Line'' (PStr []),
            PStr (strip (py_str (get_default row ''Raw_Text'' (PStr []))))])))"

text \<open>
  What \<^verbatim>\<open>csv.DictWriter\<close> writes for a record in the default dialect with
  \<^verbatim>\<open>QUOTE_MINIMAL\<close>: \<^verbatim>\<open>None\<close> is an empty cell, every other value its \<^verbatim>\<open>str\<close>; a cell
  with a comma, a double quote, a carriage return or a line feed is put in double quotes,
  its double quotes doubled; cells are joined by commas and the record ends with
  \<^verbatim>\<open>\r\n\<close>.
\<close>

fun cell_text :: "pyval \<Rightarrow> string" where
  "cell_text PNone = []"
| "cell_text v = py_str v"

definition quote_cell :: "string \<Rightarrow> string" where
  "quote_cell s =
     (if \<exists>c \<in> set s. c \<in> set [CHR '','', CHR 0x22, CHR 0x0D, CHR 0x0A] then
        CHR 0x22 # concat (map (\<lambda>c. if c = CHR 0x22 then [c, c] else [c]) s) @ [CHR 0x22]
      else s)"

fun join_cells :: "string list \<Rightarrow> string" where
  "join_cells [] = []"
| "join_cells [c] = c"
| "join_cells (c # d # cs) = c @ CHR '','' # join_cells (d # cs)"

definition csv_record :: "pyval list \<Rightarrow> string" where
  "csv_record vs = join_cells (map (quote_cell \<circ> cell_text) vs) @ [CHR 0x0D, CHR 0x0A]"

definition fieldnames :: "string list" where
  "fieldnames = [''Product'', ''Quantity'', ''Unit_Price_USD'', ''Total_Price_USD'',
                 ''Source_Line'', ''Raw_Text'']"

text \<open>
  The loop over the rows, with the text written so far; an exception leaves the loop with
  the text written before it.
\<close>

fun write_rows :: "pyrow list \<Rightarrow> string \<Rightarrow> pyerror option \<times> string" where
  "write_rows [] out = (None, out)"
| "write_rows (row # rows) out =
     (case csv_row row of
        Inl e \<Rightarrow> (Some e, out)
      | Inr vs \<Rightarrow> write_rows rows (out @ csv_record vs))"

text \<open>
  The file system is a map from paths to file contents. \<^verbatim>\<open>save_to_csv\<close> returns the
  exception raised, if any, and the file system it leaves. Failures of \<^verbatim>\<open>open\<close> and of
  writing are not modelled.
\<close>

type_synonym files = "string \<rightharpoonup> string"

definition save_to_csv :: "pyrow list \<Rightarrow> string \<Rightarrow> files \<Rightarrow> pyerror option \<times> files" where
  "save_to_csv table_data csv_path fs =
     (if table_data = [] then (None, fs)
      else
        (case write_rows table_data (csv_record (map PStr fieldnames)) of
           (e, out) \<Rightarrow> (e, fs(csv_path \<mapsto> out))))"


section \<open>The table analyzer: \<^verbatim>\<open>analyze_table\<close>\<close>













section \<open>Notions the properties are stated with\<close>

text \<open>
  A field is filled when it does not hold the empty string, the test of the analyzer
  (source lines 180 to 182).
\<close>

definition filled :: "pyrow \<Rightarrow> string \<Rightarrow> bool" where
  "filled row k = (get row k \<noteq> PStr [])"

text \<open>
  The value the extractor stores under \<^verbatim>\<open>Product\<close> for a candidate line: the empty string
  of the initial row, or the cleaned capture of the product pattern (source lines 36 and 45
  to 51).
\<close>

definition product_name :: "string \<Rightarrow> string" where
  "product_name line =
     (case re_search product_pattern line of
        None \<Rightarrow> []
      | Some m \<Rightarrow> (case group m 1 of PStr g \<Rightarrow> clean_product g | _ \<Rightarrow> []))"

text \<open>
  The three ways the numeric fields of an emitted row can look: none filled, the two prices
  filled, or all three filled.
\<close>

definition numeric_shape :: "pyrow \<Rightarrow> bool" where
  "numeric_shape row =
     ((row ''Quantity'' = Some (PStr []) \<and> row ''Unit_Price_USD'' = Some (PStr [])
         \<and> row ''Total_Price_USD'' = Some (PStr []))
      \<or> (\<exists>u t. row ''Quantity'' = Some (PStr []) \<and> row ''Unit_Price_USD'' = Some (PFloat u)
         \<and> row ''Total_Price_USD'' = Some (PFloat t))
      \<or> (\<exists>q u t. row ''Quantity'' = Some (PInt q) \<and> row ''Unit_Price_USD'' = Some (PFloat u)
         \<and> row ''Total_Price_USD'' = Some (PFloat t)))"

text \<open>The lines used as examples.\<close>

definition iphone :: string where
  "iphone = ''APPLE IPHONE 12 256GB HSO CHINA 851713004 4 233.00 932.00''"

definition iphone_row :: pyrow where
  "iphone_row = (init_row 1 iphone)
     (''Product'' \<mapsto> PStr ''APPLE IPHONE 12 256GB'', ''Quantity'' \<mapsto> PInt 4,
      ''Unit_Price_USD'' \<mapsto> PFloat (Fin 233), ''Total_Price_USD'' \<mapsto> PFloat (Fin 932))"


definition bad_total :: string where
  "bad_total = ''ABC HSO CHINA 4 233.00 ,''"

definition zero_qty :: string where
  "zero_qty = ''AAA HSO CHINA 7 2.5 0 2.5 5.0''"

definition zero_qty_row :: pyrow where
  "zero_qty_row = (init_row 1 zero_qty)
     (''Product'' \<mapsto> PStr ''AAA'', ''Quantity'' \<mapsto> PInt 0,
      ''Unit_Price_USD'' \<mapsto> PFloat (Fin (5 / 2)), ''Total_Price_USD'' \<mapsto> PFloat (Fin 5),
      ''Quantity'' \<mapsto> PInt 7)"




definition no_qty :: string where
  "no_qty = ''PHONE HSO CHINA i 490.00 5,390.00''"

definition no_qty_row :: pyrow where
  "no_qty_row = (init_row 1 no_qty)
     (''Product'' \<mapsto> PStr ''PHONE'',
      ''Unit_Price_USD'' \<mapsto> PFloat (Fin 490), ''Total_Price_USD'' \<mapsto> PFloat (Fin 5390))"

definition no_numbers :: string where
  "no_numbers = ''APPLE IPHONE HSO CHINA''"

definition no_numbers_row :: pyrow where
  "no_numbers_row = (init_row 1 no_numbers)(''Product'' \<mapsto> PStr ''APPLE IPHONE'')"


definition short_name :: string where
  "short_name = ''AB HSO CHINA 4 233.00 932.00''"
















section \<open>The shape of the rows the extractor emits\<close>

lemma and_then_Inr: "and_then x f = Inr y \<longleftrightarrow> (\<exists>v. x = Inr v \<and> f v = Inr y)"
  by (cases x) (simp_all add: and_then_def)

lemma fill_triple_Inr:
  assumes "fill_triple m row = Inr row'"
  shows "\<exists>q u t. row' = row(''Quantity'' \<mapsto> PInt q, ''Unit_Price_USD'' \<mapsto> PFloat u,
                          ''Total_Price_USD'' \<mapsto> PFloat t)"
  using assms unfolding fill_triple_def and_then_Inr by blast

lemma fill_prices_Inr:
  assumes "fill_prices m row = Inr row'"
  shows "\<exists>u t. row' = row(''Unit_Price_USD'' \<mapsto> PFloat u, ''Total_Price_USD'' \<mapsto> PFloat t)"
  using assms unfolding fill_prices_def and_then_Inr by blast

lemma extract_numbers_Inr:
  assumes "extract_numbers line row = Inr row'"
  shows "row' = row
       \<or> (\<exists>u t. row' = row(''Unit_Price_USD'' \<mapsto> PFloat u, ''Total_Price_USD'' \<mapsto> PFloat t))
       \<or> (\<exists>q u t. row' = row(''Quantity'' \<mapsto> PInt q, ''Unit_Price_USD'' \<mapsto> PFloat u,
                              ''Total_Price_USD'' \<mapsto> PFloat t))"
  using assms unfolding extract_numbers_def
  by (auto split: option.splits dest: fill_triple_Inr fill_prices_Inr)

lemma recover_quantity_Inr:
  assumes "recover_quantity line row = Inr row'"
  shows "row' = row
       \<or> (\<exists>n u t. row' = row(''Quantity'' \<mapsto> PInt n) \<and> row ''Unit_Price_USD'' = Some u \<and> truthy u
             \<and> row ''Total_Price_USD'' = Some t \<and> truthy t)"
  using assms unfolding recover_quantity_def
  by (auto split: option.splits if_splits sum.splits pyerror.splits)

lemma extract_product_Inr:
  assumes "extract_product line row = Inr row'"
  shows "row' = row(''Product'' \<mapsto> PStr (product_name line))
       \<or> (row' = row \<and> product_name line = [])"
  using assms unfolding extract_product_def product_name_def
  by (auto split: option.splits pyval.splits)

lemma keep_row_True:
  assumes "keep_row row = Inr True"
  shows "\<exists>p. row ''Product'' = Some (PStr p) \<and> 2 < length p"
  using assms unfolding keep_row_def
  by (auto split: option.splits pyval.splits if_splits)

lemma parse_line_Some:
  assumes "parse_line n raw = Inr (Some row)"
  shows "numeric_shape row \<and> row ''Product'' = Some (PStr (product_name (strip raw)))
       \<and> 2 < length (product_name (strip raw))
       \<and> row ''Source_Line'' = Some (PInt (int n)) \<and> row ''Raw_Text'' = Some (PStr (strip raw))"
proof -
  let ?line = "strip raw"
  from assms obtain row1 row2 keep where
    r1: "extract_product ?line (init_row n ?line) = Inr row1" and
    r2: "extract_numbers ?line row1 = Inr row2" and
    r3: "recover_quantity ?line row2 = Inr row" and
    k: "keep_row row = Inr keep" and keep: "keep"
    by (auto simp: parse_line_def Let_def and_then_Inr split: if_splits)
  have s1: "row1 ''Quantity'' = Some (PStr []) \<and> row1 ''Unit_Price_USD'' = Some (PStr [])
      \<and> row1 ''Total_Price_USD'' = Some (PStr []) \<and> row1 ''Source_Line'' = Some (PInt (int n))
      \<and> row1 ''Raw_Text'' = Some (PStr ?line) \<and> row1 ''Product'' = Some (PStr (product_name ?line))"
    using extract_product_Inr [OF r1] by (auto simp: init_row_def)
  have s2: "numeric_shape row2 \<and> row2 ''Source_Line'' = Some (PInt (int n))
      \<and> row2 ''Raw_Text'' = Some (PStr ?line) \<and> row2 ''Product'' = Some (PStr (product_name ?line))"
    using extract_numbers_Inr [OF r2] s1 by (auto simp: numeric_shape_def)
  have s3: "numeric_shape row \<and> row ''Source_Line'' = Some (PInt (int n))
      \<and> row ''Raw_Text'' = Some (PStr ?line) \<and> row ''Product'' = Some (PStr (product_name ?line))"
    using recover_quantity_Inr [OF r3] s2 unfolding numeric_shape_def by fastforce
  from k keep have "keep_row row = Inr True" by simp
  from keep_row_True [OF this] s3 show ?thesis by simp
qed

lemma parse_lines_rows:
  assumes "parse_lines ls acc = Inr rows" and "row \<in> set rows"
  shows "row \<in> set acc \<or> (\<exists>(n, l) \<in> set ls. parse_line n l = Inr (Some row))"
  using assms
proof (induction ls arbitrary: acc)
  case Nil
  then show ?case by simp
next
  case (Cons a ls)
  obtain n l where a: "a = (n, l)" by (cases a)
  show ?case
  proof (cases "parse_line n l")
    case (Inl e)
    with Cons.prems a show ?thesis by simp
  next
    case (Inr r)
    show ?thesis
    proof (cases r)
      case None
      with Inr Cons.prems a have "parse_lines ls acc = Inr rows" by simp
      from Cons.IH [OF this Cons.prems(2)] show ?thesis by auto
    next
      case (Some row0)
      with Inr Cons.prems a have "parse_lines ls (acc @ [row0]) = Inr rows" by simp
      from Cons.IH [OF this Cons.prems(2)] Some Inr a show ?thesis by auto
    qed
  qed
qed

lemma emitted_row:
  assumes "parse_invoice_table text = Inr rows" and "row \<in> set rows"
  shows "\<exists>n raw. parse_line n raw = Inr (Some row)"
  using parse_lines_rows [OF assms [unfolded parse_invoice_table_def]] by auto

lemma emitted_shape:
  assumes "parse_invoice_table text = Inr rows" and "row \<in> set rows"
  shows "numeric_shape row"
  using emitted_row [OF assms] parse_line_Some by blast


section \<open>Evaluating the conversions\<close>

lemma huge_gt: "10 ^ 300 < huge"
  by (simp add: huge_def)

lemma tiny_lt: "tiny < 1 / 10 ^ 300"
  by (simp add: tiny_def)

lemma fl_Fin: "1 / 10 ^ 300 \<le> q \<Longrightarrow> q \<le> 10 ^ 300 \<Longrightarrow> fl q = Fin q"
  using huge_gt tiny_lt by (auto simp: fl_def abs_if)

lemmas float_eval = float_of_string_def strip_def is_space_def lower_char_def read_decimal_def
  is_digit_def read_fraction_def read_exponent_def nat_of_digits_def digit_val_def pow10_def fl_Fin
  remove_commas_def

lemmas int_eval = int_of_string_def strip_def is_space_def is_digit_def nat_of_digits_def
  digit_val_def

lemma floor_numeral_div: "\<lfloor>numeral a / numeral b :: rat\<rfloor> = numeral a div numeral b"
  using floor_divide_of_int_eq [of "numeral a" "numeral b", where ?'a = rat] by simp

lemmas repr_eval = repr_positive_def decimal_point_def show_nat.simps digit_char_def pow10_def
  round_half_even_def layout_digits_def Let_def floor_numeral_div pad_zeros_def

lemmas line_eval = parse_line_def extract_product_def group_def extract_numbers_def
  fill_triple_def fill_prices_def and_then_def recover_quantity_def keep_row_def init_row_def


section \<open>The scenario line\<close>

lemma iphone_strip: "strip iphone = iphone" "iphone \<noteq> []"
  unfolding iphone_def by code_simp+

lemma iphone_marker: "contains ''HSO CHINA'' (upper iphone)"
  unfolding iphone_def by code_simp

lemma iphone_product: "re_search product_pattern iphone
   = Some (22, ''HSO CHINA 851713004 4 233.00 932.00'', [(1, ''APPLE IPHONE 12 256GB '')])"
  unfolding iphone_def by code_simp

lemma iphone_clean: "clean_product ''APPLE IPHONE 12 256GB '' = ''APPLE IPHONE 12 256GB''"
  by code_simp

lemma iphone_tier_a: "re_search clean_pattern iphone
   = Some (57, [], [(3, ''932.00''), (2, ''233.00''), (1, ''4'')])"
  unfolding iphone_def by code_simp

lemma iphone_numbers:
  "int_of_string ''4'' = Inr 4" "float_of_string ''233.00'' = Inr (Fin 233)"
  "float_of_string (remove_commas ''932.00'') = Inr (Fin 932)"
  by (simp_all add: float_eval int_eval)

lemma iphone_line: "parse_line 1 iphone = Inr (Some iphone_row)"
  by (simp add: line_eval iphone_strip iphone_marker iphone_product iphone_clean iphone_tier_a
      iphone_numbers iphone_row_def)

lemma iphone_lines: "enumerate 1 (split_lines (strip iphone)) = [(1, iphone)]"
  unfolding iphone_strip unfolding iphone_def by (simp add: enumerate_eq_zip)

lemma iphone_table: "parse_invoice_table iphone = Inr [iphone_row]"
  unfolding parse_invoice_table_def iphone_lines by (simp add: iphone_line del: One_nat_def)

lemma iphone_row_fields:
  "iphone_row ''Product'' = Some (PStr ''APPLE IPHONE 12 256GB'')"
  "iphone_row ''Quantity'' = Some (PInt 4)"
  "iphone_row ''Unit_Price_USD'' = Some (PFloat (Fin 233))"
  "iphone_row ''Total_Price_USD'' = Some (PFloat (Fin 932))"
  "iphone_row ''Source_Line'' = Some (PInt 1)"
  "iphone_row ''Raw_Text'' = Some (PStr iphone)"
  by (simp_all add: iphone_row_def init_row_def)


section \<open>Further example lines\<close>

lemma bad_total_strip: "strip bad_total = bad_total" "bad_total \<noteq> []"
  unfolding bad_total_def by code_simp+

lemma bad_total_marker: "contains ''HSO CHINA'' (upper bad_total)"
  unfolding bad_total_def by code_simp

lemma bad_total_product: "re_search product_pattern bad_total
   = Some (4, ''HSO CHINA 4 233.00 ,'', [(1, ''ABC '')])"
  unfolding bad_total_def by code_simp

lemma bad_total_tier_a: "re_search clean_pattern bad_total
   = Some (24, [], [(3, '',''), (2, ''233.00''), (1, ''4'')])"
  unfolding bad_total_def by code_simp

lemma bad_total_numbers:
  "int_of_string ''4'' = Inr 4" "float_of_string ''233.00'' = Inr (Fin 233)"
  "float_of_string (remove_commas '','') = Inl ValueError"
  by (simp_all add: float_eval int_eval)

lemma bad_total_line: "parse_line n bad_total = Inl ValueError"
  by (simp add: line_eval bad_total_strip bad_total_marker bad_total_product
      bad_total_tier_a bad_total_numbers)

lemma bad_total_lines: "enumerate 1 (split_lines (strip bad_total)) = [(1, bad_total)]"
  unfolding bad_total_strip unfolding bad_total_def by (simp add: enumerate_eq_zip)

lemma bad_total_table: "parse_invoice_table bad_total = Inl ValueError"
  unfolding parse_invoice_table_def bad_total_lines by (simp add: bad_total_line del: One_nat_def)

lemma two_lines: "enumerate 1 (split_lines (strip (iphone @ CHR 0x0A # bad_total)))
    = [(1, iphone), (2, bad_total)]"
proof -
  have "split_lines (strip (iphone @ CHR 0x0A # bad_total)) = [iphone, bad_total]"
    unfolding iphone_def bad_total_def by code_simp
  then show ?thesis by (simp add: enumerate_eq_zip)
qed

lemma two_lines_table: "parse_invoice_table (iphone @ CHR 0x0A # bad_total) = Inl ValueError"
  unfolding parse_invoice_table_def two_lines
  by (simp add: iphone_line bad_total_line del: One_nat_def)

lemma zero_qty_strip: "strip zero_qty = zero_qty" "zero_qty \<noteq> []"
  unfolding zero_qty_def by code_simp+

lemma zero_qty_marker: "contains ''HSO CHINA'' (upper zero_qty)"
  unfolding zero_qty_def by code_simp

lemma zero_qty_product: "re_search product_pattern zero_qty
   = Some (4, ''HSO CHINA 7 2.5 0 2.5 5.0'', [(1, ''AAA '')])"
  unfolding zero_qty_def by code_simp

lemma zero_qty_clean: "clean_product ''AAA '' = ''AAA''"
  by code_simp

lemma zero_qty_tier_a: "re_search clean_pattern zero_qty
   = Some (29, [], [(3, ''5.0''), (2, ''2.5''), (1, ''0'')])"
  unfolding zero_qty_def by code_simp

lemma zero_qty_tier_c: "re_search price_pattern zero_qty
   = Some (29, [], [(2, ''5.0''), (1, ''2.5'')])"
  unfolding zero_qty_def by code_simp

lemma zero_qty_numbers:
  "int_of_string ''0'' = Inr 0" "float_of_string ''2.5'' = Inr (Fin (5 / 2))"
  "float_of_string (remove_commas ''5.0'') = Inr (Fin 5)" "int_of_string ''7'' = Inr 7"
  by (simp_all add: float_eval int_eval)

lemma zero_qty_repr: "repr_positive (5 / 2) = ''2.5''"
  by (simp add: repr_eval)

lemma zero_qty_recovery: "re_search (qty_pattern ''2.5'') zero_qty
   = Some (19, '' 0 2.5 5.0'', [(1, ''7'')])"
  unfolding zero_qty_def by code_simp

lemma zero_qty_line: "parse_line 1 zero_qty = Inr (Some zero_qty_row)"
  by (simp add: line_eval zero_qty_strip zero_qty_marker zero_qty_product zero_qty_clean
      zero_qty_tier_a zero_qty_numbers zero_qty_repr zero_qty_recovery zero_qty_row_def)

lemma zero_qty_lines: "enumerate 1 (split_lines (strip zero_qty)) = [(1, zero_qty)]"
  unfolding zero_qty_strip unfolding zero_qty_def by (simp add: enumerate_eq_zip)

lemma zero_qty_table: "parse_invoice_table zero_qty = Inr [zero_qty_row]"
  unfolding parse_invoice_table_def zero_qty_lines by (simp add: zero_qty_line del: One_nat_def)
















lemma no_qty_strip: "strip no_qty = no_qty" "no_qty \<noteq> []"
  unfolding no_qty_def by code_simp+

lemma no_qty_marker: "contains ''HSO CHINA'' (upper no_qty)"
  unfolding no_qty_def by code_simp

lemma no_qty_product: "re_search product_pattern no_qty
   = Some (6, ''HSO CHINA i 490.00 5,390.00'', [(1, ''PHONE '')])"
  unfolding no_qty_def by code_simp

lemma no_qty_clean: "clean_product ''PHONE '' = ''PHONE''"
  by code_simp

lemma no_qty_tiers:
  "re_search clean_pattern no_qty = None" "re_search colon_pattern no_qty = None"
  "re_search price_pattern no_qty = Some (33, [], [(2, ''5,390.00''), (1, ''490.00'')])"
  unfolding no_qty_def by code_simp+

lemma no_qty_numbers:
  "float_of_string ''490.00'' = Inr (Fin 490)"
  "float_of_string (remove_commas ''5,390.00'') = Inr (Fin 5390)"
  by (simp_all add: float_eval)

lemma no_qty_repr: "repr_positive 490 = ''490.0''"
  by (simp add: repr_eval)

lemma no_qty_recovery: "re_search (qty_pattern ''490.0'') no_qty = None"
  unfolding no_qty_def by code_simp

lemma no_qty_line: "parse_line 1 no_qty = Inr (Some no_qty_row)"
  by (simp add: line_eval no_qty_strip no_qty_marker no_qty_product no_qty_clean
      no_qty_tiers no_qty_numbers no_qty_repr no_qty_recovery no_qty_row_def)

lemma no_qty_lines: "enumerate 1 (split_lines (strip no_qty)) = [(1, no_qty)]"
  unfolding no_qty_strip unfolding no_qty_def by (simp add: enumerate_eq_zip)

lemma no_qty_table: "parse_invoice_table no_qty = Inr [no_qty_row]"
  unfolding parse_invoice_table_def no_qty_lines by (simp add: no_qty_line del: One_nat_def)

lemma no_numbers_strip: "strip no_numbers = no_numbers" "no_numbers \<noteq> []"
  unfolding no_numbers_def by code_simp+

lemma no_numbers_marker: "contains ''HSO CHINA'' (upper no_numbers)"
  unfolding no_numbers_def by code_simp

lemma no_numbers_product: "re_search product_pattern no_numbers
   = Some (13, ''HSO CHINA'', [(1, ''APPLE IPHONE '')])"
  unfolding no_numbers_def by code_simp

lemma no_numbers_clean: "clean_product ''APPLE IPHONE '' = ''APPLE IPHONE''"
  by code_simp

lemma no_numbers_tiers:
  "re_search clean_pattern no_numbers = None" "re_search colon_pattern no_numbers = None"
  "re_search price_pattern no_numbers = None"
  unfolding no_numbers_def by code_simp+

lemma no_numbers_line: "parse_line 1 no_numbers = Inr (Some no_numbers_row)"
  by (simp add: line_eval no_numbers_strip no_numbers_marker no_numbers_product no_numbers_clean
      no_numbers_tiers no_numbers_row_def)

lemma no_numbers_lines: "enumerate 1 (split_lines (strip no_numbers)) = [(1, no_numbers)]"
  unfolding no_numbers_strip unfolding no_numbers_def by (simp add: enumerate_eq_zip)

lemma no_numbers_table: "parse_invoice_table no_numbers = Inr [no_numbers_row]"
  unfolding parse_invoice_table_def no_numbers_lines
  by (simp add: no_numbers_line del: One_nat_def)


section \<open>Substrings and the lines behind the rows\<close>




lemma zero_qty_row_fields:
  "zero_qty_row ''Quantity'' = Some (PInt 7)"
  "zero_qty_row ''Unit_Price_USD'' = Some (PFloat (Fin (5 / 2)))"
  "zero_qty_row ''Total_Price_USD'' = Some (PFloat (Fin 5))"
  by (simp_all add: zero_qty_row_def init_row_def)

lemma emitted_line:
  assumes "parse_invoice_table text = Inr rows" and "row \<in> set rows"
  shows "\<exists>n raw. (n, raw) \<in> set (enumerate 1 (split_lines (strip text)))
           \<and> parse_line n raw = Inr (Some row)"
  using parse_lines_rows [OF assms [unfolded parse_invoice_table_def]] by auto

lemma short_name_product: "product_name (strip short_name) = ''AB''"
  unfolding short_name_def by code_simp


section \<open>The filter on the lines\<close>

























lemma quantity_needs_prices:
  assumes "parse_invoice_table text = Inr rows" and "row \<in> set rows"
    and "filled row ''Quantity''"
  shows "filled row ''Unit_Price_USD'' \<and> filled row ''Total_Price_USD''"
  using emitted_shape [OF assms(1,2)] assms(3)
  by (auto simp: numeric_shape_def filled_def get_def)

lemma example_fills:
  "\<not> filled no_qty_row ''Quantity''" "filled no_qty_row ''Unit_Price_USD''"
  "filled no_qty_row ''Total_Price_USD''"
  "\<not> filled no_numbers_row ''Quantity''" "\<not> filled no_numbers_row ''Unit_Price_USD''"
  "\<not> filled no_numbers_row ''Total_Price_USD''"
  "filled iphone_row ''Quantity''" "filled iphone_row ''Unit_Price_USD''"
  "filled iphone_row ''Total_Price_USD''"
  by (simp_all add: filled_def get_def no_qty_row_def no_numbers_row_def iphone_row_def init_row_def)


section \<open>The analyzer on rows of the data model\<close>





























section \<open>The claims\<close>

text \<open>
  C3. On the line \<^verbatim>\<open>APPLE IPHONE 12 256GB HSO CHINA 851713004 4 233.00 932.00\<close> the extractor
  emits exactly one row, with the product \<^verbatim>\<open>APPLE IPHONE 12 256GB\<close>, the quantity 4, the
  unit price 233.00 and the total price 932.00.
\<close>

theorem iphone_scenario:
  "\<exists>row. parse_invoice_table ''APPLE IPHONE 12 256GB HSO CHINA 851713004 4 233.00 932.00'' = Inr [row]
      \<and> row ''Product'' = Some (PStr ''APPLE IPHONE 12 256GB'')
      \<and> row ''Quantity'' = Some (PInt 4)
      \<and> row ''Unit_Price_USD'' = Some (PFloat (Fin 233))
      \<and> row ''Total_Price_USD'' = Some (PFloat (Fin 932))"
  using iphone_table iphone_row_fields unfolding iphone_def by blast

text \<open>
  C10. In every row the extractor emits, the unit price is filled if and only if the total
  price is filled.
\<close>

theorem prices_filled_together:
  assumes "parse_invoice_table text = Inr rows" and "row \<in> set rows"
  shows "filled row ''Unit_Price_USD'' \<longleftrightarrow> filled row ''Total_Price_USD''"
  using emitted_shape [OF assms] by (auto simp: numeric_shape_def filled_def get_def)

theorem prices_filled_together_witness:
  "parse_invoice_table iphone = Inr [iphone_row] \<and> iphone_row \<in> set [iphone_row]
   \<and> (filled iphone_row ''Unit_Price_USD'' \<longleftrightarrow> filled iphone_row ''Total_Price_USD'')"
  using prices_filled_together [of iphone "[iphone_row]" iphone_row] iphone_table by simp

text \<open>
  C1. The claim: the extractor never raises, and a numeric token that cannot be parsed inside
  a pattern that matched makes the tier a non-match. The code: the first pattern matches the
  line \<^verbatim>\<open>ABC HSO CHINA 4 233.00 ,\<close> with the total \<^verbatim>\<open>,\<close>; the conversion of the total,
  after its commas are removed, raises \<^verbatim>\<open>ValueError\<close>, which nothing catches. The scan is
  aborted, also when a good line came before.
\<close>

theorem unparseable_total_raises:
  "re_search clean_pattern ''ABC HSO CHINA 4 233.00 ,''
     = Some (24, [], [(3, '',''), (2, ''233.00''), (1, ''4'')])
   \<and> parse_invoice_table ''ABC HSO CHINA 4 233.00 ,'' = Inl ValueError
   \<and> parse_invoice_table (''APPLE IPHONE 12 256GB HSO CHINA 851713004 4 233.00 932.00''
         @ CHR 0x0A # ''ABC HSO CHINA 4 233.00 ,'') = Inl ValueError"
  using bad_total_tier_a bad_total_table two_lines_table unfolding bad_total_def iphone_def
  by simp

text \<open>
  C2. The claim: a line that matches the first and the third pattern is emitted with the
  extraction of the first. The code: on \<^verbatim>\<open>AAA HSO CHINA 7 2.5 0 2.5 5.0\<close> both patterns
  match, the first with the quantity 0; the test \<^verbatim>\<open>not row['Quantity']\<close> takes that 0 for
  an unfilled field, and the recovery pass replaces it by 7.
\<close>

theorem zero_quantity_overwritten:
  "re_search clean_pattern ''AAA HSO CHINA 7 2.5 0 2.5 5.0''
     = Some (29, [], [(3, ''5.0''), (2, ''2.5''), (1, ''0'')])
   \<and> re_search price_pattern ''AAA HSO CHINA 7 2.5 0 2.5 5.0''
     = Some (29, [], [(2, ''5.0''), (1, ''2.5'')])
   \<and> (\<exists>row. parse_invoice_table ''AAA HSO CHINA 7 2.5 0 2.5 5.0'' = Inr [row]
         \<and> row ''Quantity'' = Some (PInt 7)
         \<and> row ''Unit_Price_USD'' = Some (PFloat (Fin (5 / 2)))
         \<and> row ''Total_Price_USD'' = Some (PFloat (Fin 5)))"
  using zero_qty_tier_a zero_qty_tier_c zero_qty_table zero_qty_row_fields
  unfolding zero_qty_def by blast

text \<open>
  C4. Every row the extractor emits comes from a line of the text, carries the
  post-processed product name of that line, and this name is longer than 2 characters; a
  line whose post-processed product name has at most 2 characters (the empty name included)
  is never emitted as a row.
\<close>

theorem rejection_invariant:
  "(parse_invoice_table text = Inr rows \<and> row \<in> set rows \<longrightarrow>
      (\<exists>n raw. (n, raw) \<in> set (enumerate 1 (split_lines (strip text)))
          \<and> parse_line n raw = Inr (Some row)
          \<and> row ''Product'' = Some (PStr (product_name (strip raw)))
          \<and> 2 < length (product_name (strip raw))))
   \<and> (length (product_name (strip raw')) \<le> 2 \<longrightarrow> parse_line n' raw' \<noteq> Inr (Some row'))"
proof (intro conjI impI)
  assume "parse_invoice_table text = Inr rows \<and> row \<in> set rows"
  then obtain n raw where "(n, raw) \<in> set (enumerate 1 (split_lines (strip text)))"
    and "parse_line n raw = Inr (Some row)"
    using emitted_line by blast
  with parse_line_Some [of n raw row]
  show "\<exists>n raw. (n, raw) \<in> set (enumerate 1 (split_lines (strip text)))
          \<and> parse_line n raw = Inr (Some row)
          \<and> row ''Product'' = Some (PStr (product_name (strip raw)))
          \<and> 2 < length (product_name (strip raw))"
    by blast
next
  assume "length (product_name (strip raw')) \<le> 2"
  with parse_line_Some [of n' raw' row'] show "parse_line n' raw' \<noteq> Inr (Some row')"
    by auto
qed

theorem rejection_invariant_witness:
  "parse_invoice_table iphone = Inr [iphone_row] \<and> iphone_row \<in> set [iphone_row]
   \<and> (\<exists>n raw. (n, raw) \<in> set (enumerate 1 (split_lines (strip iphone)))
          \<and> parse_line n raw = Inr (Some iphone_row)
          \<and> iphone_row ''Product'' = Some (PStr (product_name (strip raw)))
          \<and> 2 < length (product_name (strip raw)))
   \<and> length (product_name (strip short_name)) \<le> 2
   \<and> parse_line 1 short_name \<noteq> Inr (Some iphone_row)"
  using rejection_invariant [of iphone "[iphone_row]" iphone_row short_name 1 iphone_row]
    iphone_table short_name_product by simp




text \<open>
  C6, as the claim states it, fails: no emitted row has the quantity filled and the unit
  price unfilled, so a filled quantity does imply filled prices.
\<close>

theorem quantity_without_prices_impossible:
  "\<not> (\<exists>text rows row. parse_invoice_table text = Inr rows \<and> row \<in> set rows
         \<and> filled row ''Quantity'' \<and> \<not> filled row ''Unit_Price_USD'')"
  using quantity_needs_prices by blast

text \<open>
  C6, amended. In an emitted row the quantity may be unfilled while both prices are filled,
  all three fields may be unfilled and all three may be filled; but a filled quantity implies
  that both prices are filled.
\<close>

theorem quantity_optional_beside_prices:
  "(parse_invoice_table text = Inr rows \<and> row \<in> set rows \<and> filled row ''Quantity''
      \<longrightarrow> filled row ''Unit_Price_USD'' \<and> filled row ''Total_Price_USD'')
   \<and> (\<exists>r. parse_invoice_table ''PHONE HSO CHINA i 490.00 5,390.00'' = Inr [r]
         \<and> \<not> filled r ''Quantity'' \<and> filled r ''Unit_Price_USD'' \<and> filled r ''Total_Price_USD'')
   \<and> (\<exists>r. parse_invoice_table ''APPLE IPHONE HSO CHINA'' = Inr [r]
         \<and> \<not> filled r ''Quantity'' \<and> \<not> filled r ''Unit_Price_USD''
         \<and> \<not> filled r ''Total_Price_USD'')
   \<and> (\<exists>r. parse_invoice_table ''APPLE IPHONE 12 256GB HSO CHINA 851713004 4 233.00 932.00'' = Inr [r]
         \<and> filled r ''Quantity'' \<and> filled r ''Unit_Price_USD'' \<and> filled r ''Total_Price_USD'')"
  using quantity_needs_prices no_qty_table no_numbers_table iphone_table
    example_fills
  unfolding no_qty_def [symmetric] no_numbers_def [symmetric] iphone_def [symmetric]
  by blast

theorem quantity_optional_beside_prices_witness:
  "parse_invoice_table iphone = Inr [iphone_row] \<and> iphone_row \<in> set [iphone_row]
   \<and> filled iphone_row ''Quantity''
   \<and> filled iphone_row ''Unit_Price_USD'' \<and> filled iphone_row ''Total_Price_USD''"
  using quantity_optional_beside_prices [of iphone "[iphone_row]" iphone_row]
    iphone_table example_fills by simp





end
